theory Spec2Isabelle
  imports Complex_Main "HOL-Library.Char_ord" "HOL-Library.List_Lexorder"
    "HOL-Library.Product_Lexorder"
begin

section \<open>Data model of the MP Project War Room dashboard\<close>

text \<open>
  The program is one script, \<^verbatim>\<open>mp_project_war_room_v2.py\<close>, over a pandas DataFrame
  read from a spreadsheet. A DataFrame is modelled as the list of its rows in index
  order, a row as a record of its columns.

  A spreadsheet cell can be empty: every column of the raw frame is an \<open>option\<close>,
  \<open>None\<close> standing for pandas' missing value (NaN, NaT). A \<open>Completion %\<close> cell is a
  float: \<open>None\<close> is NaN, \<open>Some x\<close> a number, taken as an exact real (rounding of
  binary floating point is outside the model). A timestamp is the number of
  nanoseconds since the epoch, as \<^verbatim>\<open>pd.Timestamp\<close> stores it.
\<close>

type_synonym timestamp = int

type_synonym float64 = "real option"

record row =
  Project_Name :: "string option"
  Project_category :: "string option"
  Department :: "string option"
  Sub_department :: "string option"
  Department_Head :: "string option"
  Expected_Completion :: "timestamp option"
  Week_Number :: "int option"
  Completion :: float64
  Status_Flag :: "string option"

text \<open>
  A row of \<^verbatim>\<open>proj_group\<close>: the six grouping columns (never missing in the result of
  a group-by, hence not optional) and the two aggregated columns.
\<close>

record proj_group_row =
  ps_Project_Name :: string
  ps_Project_category :: string
  ps_Department :: string
  ps_Sub_department :: string
  ps_Department_Head :: string
  ps_Expected_Completion :: timestamp
  ps_Completion :: float64
  ps_Status_Flag :: "string option"

text \<open>A row of \<^verbatim>\<open>proj_summary\<close> once the column \<^verbatim>\<open>Derived Status\<close> is added.\<close>

record proj_summary_row = proj_group_row +
  ps_Derived_Status :: string

section \<open>Float comparisons\<close>

text \<open>Python's \<^verbatim>\<open>>=\<close> and \<^verbatim>\<open><\<close> on floats: every comparison with NaN is false.\<close>

definition float_ge :: "float64 \<Rightarrow> real \<Rightarrow> bool" where
  "float_ge x c = (case x of None \<Rightarrow> False | Some v \<Rightarrow> c \<le> v)"

definition float_lt :: "float64 \<Rightarrow> real \<Rightarrow> bool" where
  "float_lt x c = (case x of None \<Rightarrow> False | Some v \<Rightarrow> v < c)"

section \<open>Status flag logic\<close>

text \<open>
  \<^verbatim>\<open>derive_status_flag(row)\<close>, lines 56 to 64. The script reads the clock with
  \<^verbatim>\<open>pd.Timestamp.today()\<close>, which is the current local date and time of day; the value
  read is the parameter \<open>today\<close>. The column \<^verbatim>\<open>Expected Completion\<close> of an aggregated
  row is a timestamp already, on which \<^verbatim>\<open>pd.to_datetime\<close> is the identity.
\<close>

definition derive_status_flag :: "timestamp \<Rightarrow> 'a proj_group_row_scheme \<Rightarrow> string" where
  "derive_status_flag today r =
     (if float_ge (ps_Completion r) (999 / 10) then ''Completed''
      else if float_ge (ps_Completion r) 85 then ''On Track''
      else if float_lt (ps_Completion r) 85 \<and> ps_Expected_Completion r < today
        then ''Delayed''
      else ''Paused'')"

text \<open>The calendar date of a timestamp: the day it falls in.\<close>

definition ns_per_day :: int where
  "ns_per_day = 86400 * 1000000000"


text \<open>
  \<^verbatim>\<open>proj_summary["Derived Status"] = proj_summary.apply(derive_status_flag, axis=1)\<close>
\<close>

definition add_derived_status :: "timestamp \<Rightarrow> proj_group_row list \<Rightarrow> proj_summary_row list" where
  "add_derived_status today g =
     map (\<lambda>r. proj_group_row.extend r
                 (proj_summary_row.fields (derive_status_flag today r))) g"

text \<open>\<^verbatim>\<open>status_count(df, status)\<close>, lines 69 to 70.\<close>

definition status_count :: "proj_summary_row list \<Rightarrow> string \<Rightarrow> nat" where
  "status_count df status = length (filter (\<lambda>r. ps_Derived_Status r = status) df)"

section \<open>Group-by and the aggregations\<close>

text \<open>
  \<^verbatim>\<open>DataFrame.groupby(keys)\<close> with its defaults \<^verbatim>\<open>sort=True, dropna=True\<close>: a row with
  a missing value in a key column belongs to no group, the groups come out in
  ascending order of the key, and the rows of a group keep their order in the frame.
  The key function answers \<open>None\<close> for a row with a missing key column. One pass over
  the frame files each row into its group, in a list of groups kept in key order.
\<close>

fun add_row :: "'k::linorder \<Rightarrow> 'r \<Rightarrow> ('k \<times> 'r list) list \<Rightarrow> ('k \<times> 'r list) list" where
  "add_row k r [] = [(k, [r])]"
| "add_row k r ((k', g) # gs) =
     (if k = k' then (k', g @ [r]) # gs
      else if k < k' then (k, [r]) # (k', g) # gs
      else (k', g) # add_row k r gs)"

definition groupby :: "('r \<Rightarrow> 'k::linorder option) \<Rightarrow> 'r list \<Rightarrow> ('k \<times> 'r list) list" where
  "groupby key df =
     foldl (\<lambda>gs r. case key r of None \<Rightarrow> gs | Some k \<Rightarrow> add_row k r gs) [] df"

text \<open>A key of several columns is present when each of its columns is.\<close>

fun zip_option :: "'a option \<Rightarrow> 'b option \<Rightarrow> ('a \<times> 'b) option" where
  "zip_option (Some a) (Some b) = Some (a, b)"
| "zip_option _ _ = None"

text \<open>
  The aggregation \<^verbatim>\<open>"mean"\<close> skips missing values: it accumulates the sum and the
  number of the values present, and the mean of no value is NaN.
\<close>

definition mean_skipna :: "float64 list \<Rightarrow> float64" where
  "mean_skipna vs =
     (case foldl (\<lambda>(s, n) v. case v of None \<Rightarrow> (s, n) | Some x \<Rightarrow> (s + x, Suc n))
             (0, 0) vs
      of (s, n) \<Rightarrow> if n = 0 then None else Some (s / real n))"

text \<open>
  The aggregation \<^verbatim>\<open>"last"\<close> of a group-by is the last entry of the column in the
  group that is not missing, and missing when there is none.
\<close>

definition last_skipna :: "'a option list \<Rightarrow> 'a option" where
  "last_skipna vs = foldl (\<lambda>acc v. case v of None \<Rightarrow> acc | Some x \<Rightarrow> Some x) None vs"

section \<open>Week filter and project aggregation\<close>

text \<open>\<^verbatim>\<open>df_week = df[df["Week Number"] == selected_week]\<close>\<close>

definition df_week :: "int \<Rightarrow> row list \<Rightarrow> row list" where
  "df_week selected_week df = filter (\<lambda>r. Week_Number r = Some selected_week) df"

type_synonym identity = "string \<times> string \<times> string \<times> string \<times> string \<times> timestamp"

definition identity_key :: "row \<Rightarrow> identity option" where
  "identity_key r =
     zip_option (Project_Name r) (zip_option (Project_category r)
       (zip_option (Department r) (zip_option (Sub_department r)
         (zip_option (Department_Head r) (Expected_Completion r)))))"

text \<open>\<^verbatim>\<open>aggregate_project_progress(df_week)\<close>, lines 47 to 51.\<close>

definition aggregate_project_progress :: "row list \<Rightarrow> proj_group_row list" where
  "aggregate_project_progress dfw =
     map (\<lambda>((n, c, d, s, h, e), g).
            \<lparr>ps_Project_Name = n, ps_Project_category = c, ps_Department = d,
             ps_Sub_department = s, ps_Department_Head = h, ps_Expected_Completion = e,
             ps_Completion = mean_skipna (map Completion g),
             ps_Status_Flag = last_skipna (map Status_Flag g)\<rparr>)
         (groupby identity_key dfw)"

definition proj_summary :: "timestamp \<Rightarrow> row list \<Rightarrow> proj_summary_row list" where
  "proj_summary today dfw = add_derived_status today (aggregate_project_progress dfw)"

text \<open>The six identity columns of an aggregated row.\<close>

definition identity_of :: "'a proj_group_row_scheme \<Rightarrow> identity" where
  "identity_of a =
     (ps_Project_Name a, ps_Project_category a, ps_Department a, ps_Sub_department a,
      ps_Department_Head a, ps_Expected_Completion a)"

text \<open>
  The arithmetic mean as the specification words it: the sum of the values over
  their number, undefined (NaN) for no value.
\<close>

definition arithmetic_mean :: "real list \<Rightarrow> float64" where
  "arithmetic_mean xs = (if xs = [] then None else Some (sum_list xs / real (length xs)))"

text \<open>The rows of a frame that carry a given identity key, in the frame's order.\<close>

definition group_rows :: "identity \<Rightarrow> row list \<Rightarrow> row list" where
  "group_rows k df = filter (\<lambda>r. identity_key r = Some k) df"

section \<open>Heatmap\<close>

record heat_row =
  h_Department :: string
  h_Project_Name :: string
  h_Completion :: float64

text \<open>
  \<^verbatim>\<open>heat_df = proj_summary.groupby(["Department", "Project Name"])["Completion %"].mean().reset_index()\<close>
\<close>

definition heat_df :: "proj_summary_row list \<Rightarrow> heat_row list" where
  "heat_df ps =
     map (\<lambda>((d, n), g).
            \<lparr>h_Department = d, h_Project_Name = n,
             h_Completion = mean_skipna (map ps_Completion g)\<rparr>)
         (groupby (\<lambda>r. Some (ps_Department r, ps_Project_Name r)) ps)"

record heat_matrix =
  hm_index :: "string list"
  hm_columns :: "string list"
  hm_values :: "float64 list list"

datatype exn = ValueError string

text \<open>
  \<^verbatim>\<open>DataFrame.pivot(index, columns, values)\<close>: it raises a \<^verbatim>\<open>ValueError\<close> when two rows
  have the same (index, column) pair; otherwise the row labels and the column labels
  are the distinct values in ascending order and a cell without a row is NaN.
\<close>

definition pivot_cell :: "heat_row list \<Rightarrow> string \<Rightarrow> string \<Rightarrow> float64" where
  "pivot_cell hdf d n =
     (case find (\<lambda>r. h_Department r = d \<and> h_Project_Name r = n) hdf of
        None \<Rightarrow> None | Some r \<Rightarrow> h_Completion r)"

definition pivot :: "heat_row list \<Rightarrow> exn + heat_matrix" where
  "pivot hdf =
     (if \<not> distinct (map (\<lambda>r. (h_Department r, h_Project_Name r)) hdf)
      then Inl (ValueError ''Index contains duplicate entries, cannot reshape'')
      else
        (let idx = sort (remdups (map h_Department hdf));
             cols = sort (remdups (map h_Project_Name hdf))
         in Inr \<lparr>hm_index = idx, hm_columns = cols,
                 hm_values = map (\<lambda>d. map (\<lambda>n. pivot_cell hdf d n) cols) idx\<rparr>))"

text \<open>\<^verbatim>\<open>heat_pivot.fillna(0)\<close>\<close>

definition fillna0 :: "heat_matrix \<Rightarrow> heat_matrix" where
  "fillna0 m =
     m\<lparr>hm_values :=
         map (map (\<lambda>v. case v of None \<Rightarrow> Some 0 | Some x \<Rightarrow> Some x)) (hm_values m)\<rparr>"

section \<open>Timeline of the Super Critical projects\<close>

record trend_row =
  t_Week_Number :: int
  t_Project_Name :: string
  t_Completion :: float64

text \<open>\<^verbatim>\<open>timeline_df = df[df["Project category"] == "Super Critical"]\<close>\<close>

definition timeline_df :: "row list \<Rightarrow> row list" where
  "timeline_df df = filter (\<lambda>r. Project_category r = Some ''Super Critical'') df"

text \<open>
  \<^verbatim>\<open>agg_tl = timeline_df.groupby(["Week Number", "Project Name"]).agg({"Completion %": "mean"}).reset_index()\<close>
\<close>

definition agg_tl :: "row list \<Rightarrow> trend_row list" where
  "agg_tl tdf =
     map (\<lambda>((w, n), g).
            \<lparr>t_Week_Number = w, t_Project_Name = n,
             t_Completion = mean_skipna (map Completion g)\<rparr>)
         (groupby (\<lambda>r. zip_option (Week_Number r) (Project_Name r)) tdf)"

text \<open>
  The other order of the two steps, as the specification words it: aggregate the
  whole frame by (week, project name, project category), then keep the groups of the
  category Super Critical (and their week, project name and mean).
\<close>

record trend_cat_row = trend_row +
  t_Project_category :: string

definition agg_by_week_project_category :: "row list \<Rightarrow> trend_cat_row list" where
  "agg_by_week_project_category df =
     map (\<lambda>((w, n, c), g).
            \<lparr>t_Week_Number = w, t_Project_Name = n,
             t_Completion = mean_skipna (map Completion g), t_Project_category = c\<rparr>)
         (groupby (\<lambda>r. zip_option (Week_Number r)
                          (zip_option (Project_Name r) (Project_category r))) df)"

definition keep_super_critical :: "trend_cat_row list \<Rightarrow> trend_row list" where
  "keep_super_critical a =
     map trend_row.truncate (filter (\<lambda>r. t_Project_category r = ''Super Critical'') a)"

section \<open>The page from the heatmap on\<close>

text \<open>
  What the script shows is the list of the elements it has written to the page, in
  order. A call of the page or chart library (\<^verbatim>\<open>st.markdown\<close>, \<^verbatim>\<open>st.warning\<close>,
  \<^verbatim>\<open>st.plotly_chart\<close> of a figure) writes one element. The exception the model follows
  is the one of the data pipeline inside the \<^verbatim>\<open>try\<close> block, raised by the pivot; the
  annotation texts of the heatmap (the values rounded to one decimal and printed) are
  left out of the figure.
\<close>

datatype element =
  Markdown string
| Warning string
| Annotated_Heatmap "float64 list list" "string list" "string list"
| Line_Chart "trend_row list"

text \<open>Lines 184 to 197, given the value of \<^verbatim>\<open>heat_df\<close>.\<close>

definition heatmap_block :: "heat_row list \<Rightarrow> element list" where
  "heatmap_block hdf =
     (case pivot hdf of
        Inl (ValueError e) \<Rightarrow> [Warning (''Unable to render heatmap for this week: '' @ e)]
      | Inr hp \<Rightarrow>
          (let heat_pivot = fillna0 hp
           in [Annotated_Heatmap (hm_values heat_pivot) (hm_columns heat_pivot)
                 (hm_index heat_pivot)]))"

text \<open>Lines 200 to 211.\<close>

definition timeline_block :: "row list \<Rightarrow> element list" where
  "timeline_block df =
     Markdown ''#### Timeline Trend: Super Critical Projects'' #
     (if timeline_df df \<noteq> [] then [Line_Chart (agg_tl (timeline_df df))] else [])"

text \<open>Lines 213 to 214.\<close>

definition footer :: "element list" where
  "footer =
     [Markdown ''---'',
      Markdown ''**Note:** All data and status are for demonstration purposes only.'']"

text \<open>
  Lines 184 to 214 as one run, from the value of \<^verbatim>\<open>heat_df\<close> and the full frame:
  the elements written by the heatmap block, then the timeline and the footer.
\<close>

definition render_from_heatmap :: "heat_row list \<Rightarrow> row list \<Rightarrow> element list" where
  "render_from_heatmap hdf df = heatmap_block hdf @ timeline_block df @ footer"

text \<open>Lines 182 to 214 of the script for a given \<^verbatim>\<open>proj_summary\<close> and frame.\<close>

definition page_from_heatmap :: "proj_summary_row list \<Rightarrow> row list \<Rightarrow> element list" where
  "page_from_heatmap ps df =
     Markdown ''#### Department-wise Project Heatmap'' # render_from_heatmap (heat_df ps) df"

section \<open>Example inputs\<close>

text \<open>
  An aggregated row of the project Bridge A with a given completion percentage and
  expected completion, and the raw row of a given week that reports it.
\<close>

definition bridge_a :: "float64 \<Rightarrow> timestamp \<Rightarrow> proj_group_row" where
  "bridge_a c e =
     \<lparr>ps_Project_Name = ''Bridge A'', ps_Project_category = ''Super Critical'',
      ps_Department = ''PWD'', ps_Sub_department = ''Roads'',
      ps_Department_Head = ''Chief Engineer'', ps_Expected_Completion = e,
      ps_Completion = c, ps_Status_Flag = None\<rparr>"

definition bridge_a_row :: "int \<Rightarrow> float64 \<Rightarrow> string option \<Rightarrow> row" where
  "bridge_a_row w c f =
     \<lparr>Project_Name = Some ''Bridge A'', Project_category = Some ''Super Critical'',
      Department = Some ''PWD'', Sub_department = Some ''Roads'',
      Department_Head = Some ''Chief Engineer'', Expected_Completion = Some (20000 * ns_per_day),
      Week_Number = Some w, Completion = c, Status_Flag = f\<rparr>"

text \<open>Half past nine in the morning of day 20000, and the midnight that starts that day.\<close>

definition morning :: timestamp where
  "morning = 20000 * ns_per_day + 34200000000000"

definition midnight :: timestamp where
  "midnight = 20000 * ns_per_day"

text \<open>Two reports of Bridge A in week 3, the later one without a status flag.\<close>

definition two_reports :: "row list" where
  "two_reports = [bridge_a_row 3 (Some 80) (Some ''On Track''), bridge_a_row 3 (Some 90) None]"



section \<open>Properties of the status flag logic\<close>

lemma derived_status_extend:
  "ps_Derived_Status (proj_group_row.extend r (proj_summary_row.fields s)) = s"
  by (cases r) (simp add: proj_group_row.defs proj_summary_row.defs)

lemma derive_status_flag_cases:
  "derive_status_flag today r = ''Completed'' \<or> derive_status_flag today r = ''On Track''
   \<or> derive_status_flag today r = ''Delayed'' \<or> derive_status_flag today r = ''Paused''"
  by (simp add: derive_status_flag_def)




text \<open>
  C2. The branches are tried in order and the first that matches wins: a completion
  of at least 99.9 is Completed, one of at least 85 and under 99.9 is On Track, both
  bounds included, whatever the expected completion and the clock.
\<close>

theorem completed_and_on_track_boundaries:
  "(ps_Completion r = Some c \<and> 999 / 10 \<le> c \<longrightarrow> derive_status_flag today r = ''Completed'')
   \<and> (ps_Completion r = Some c \<and> 85 \<le> c \<and> c < 999 / 10
        \<longrightarrow> derive_status_flag today r = ''On Track'')"
  by (simp add: derive_status_flag_def float_ge_def)

theorem completed_and_on_track_boundaries_witness:
  "ps_Completion (bridge_a (Some (999 / 10)) midnight) = Some (999 / 10)
   \<and> (999 / 10 :: real) \<le> 999 / 10
   \<and> derive_status_flag morning (bridge_a (Some (999 / 10)) midnight) = ''Completed''
   \<and> ps_Completion (bridge_a (Some 85) midnight) = Some 85
   \<and> (85 :: real) \<le> 85 \<and> (85 :: real) < 999 / 10
   \<and> derive_status_flag morning (bridge_a (Some 85) midnight) = ''On Track''"
  using completed_and_on_track_boundaries
      [of "bridge_a (Some (999 / 10)) midnight" "999 / 10" morning]
    completed_and_on_track_boundaries [of "bridge_a (Some 85) midnight" 85 morning]
  by (simp add: bridge_a_def)

text \<open>
  C6. The status flag logic answers one of Completed, On Track, Delayed and Paused,
  never Out of Scope, so the count of the derived status Out of Scope is zero for
  every frame the rule has labelled.
\<close>

theorem never_out_of_scope:
  "derive_status_flag today r \<in> {''Completed'', ''On Track'', ''Delayed'', ''Paused''}
   \<and> derive_status_flag today r \<noteq> ''Out of Scope''
   \<and> status_count (add_derived_status today g) ''Out of Scope'' = 0"
proof -
  have b: "derive_status_flag today x \<noteq> ''Out of Scope''" for x :: "'b proj_group_row_scheme"
    using derive_status_flag_cases [of today x] by auto
  have "filter (\<lambda>x. ps_Derived_Status x = ''Out of Scope'') (add_derived_status today g) = []"
    unfolding add_derived_status_def filter_empty_conv
    using b by (auto simp add: derived_status_extend simp del: list.simps)
  then have "status_count (add_derived_status today g) ''Out of Scope'' = 0"
    by (simp add: status_count_def)
  with b derive_status_flag_cases [of today r] show ?thesis by auto
qed

section \<open>Properties of the group-by\<close>

lemma groupby_Nil: "groupby key [] = []"
  by (simp add: groupby_def)

lemma groupby_snoc:
  "groupby key (df @ [r]) =
     (case key r of None \<Rightarrow> groupby key df | Some k \<Rightarrow> add_row k r (groupby key df))"
  by (cases "key r") (simp_all add: groupby_def)

lemma set_map_filter: "set (List.map_filter f xs) = {y. \<exists>x\<in>set xs. f x = Some y}"
  by (induction xs) (auto split: option.splits)

lemma map_filter_append:
  "List.map_filter f (xs @ ys) = List.map_filter f xs @ List.map_filter f ys"
  by (simp add: List.map_filter_def)

lemma add_row_keys: "fst ` set (add_row k r gs) = insert k (fst ` set gs)"
  by (induction gs) force+

lemma add_row_sorted:
  "sorted_wrt (<) (map fst gs) \<Longrightarrow> sorted_wrt (<) (map fst (add_row k r gs))"
proof (induction gs)
  case Nil
  then show ?case by simp
next
  case (Cons p gs)
  obtain k' g where p: "p = (k', g)" by (cases p)
  have "\<forall>x\<in>fst ` set (add_row k r gs). k' < x" if "k' < k"
    using Cons.prems that by (auto simp add: add_row_keys p)
  with Cons show ?case
    by (auto simp add: p)
qed

lemma groupby_sorted: "sorted_wrt (<) (map fst (groupby key df))"
proof (induction df rule: rev_induct)
  case Nil
  then show ?case by (simp add: groupby_Nil)
next
  case (snoc r df)
  then show ?case
    by (simp add: groupby_snoc add_row_sorted split: option.split)
qed

lemma groupby_keys: "fst ` set (groupby key df) = set (List.map_filter key df)"
proof (induction df rule: rev_induct)
  case Nil
  then show ?case by (simp add: groupby_Nil map_filter_simps)
next
  case (snoc r df)
  then show ?case
    by (simp add: groupby_snoc add_row_keys map_filter_append map_filter_simps split: option.split)
qed

lemma groupby_distinct: "distinct (map fst (groupby key df))"
  using groupby_sorted [of key df] by (simp add: strict_sorted_iff)

lemma add_row_member:
  assumes "sorted_wrt (<) (map fst gs)" and "(k', g') \<in> set (add_row k r gs)"
  shows "(k' \<noteq> k \<and> (k', g') \<in> set gs)
         \<or> (k' = k \<and> (\<exists>g. (k, g) \<in> set gs \<and> g' = g @ [r]))
         \<or> (k' = k \<and> k \<notin> fst ` set gs \<and> g' = [r])"
  using assms
proof (induction gs)
  case Nil
  then show ?case by simp
next
  case (Cons p gs)
  obtain k0 g0 where p: "p = (k0, g0)" by (cases p)
  show ?case
  proof (cases "k = k0")
    case True
    with Cons.prems show ?thesis by (auto simp add: p)
  next
    case ne: False
    show ?thesis
    proof (cases "k < k0")
      case True
      with Cons.prems ne show ?thesis by (fastforce simp add: p)
    next
      case False
      with Cons ne show ?thesis by (fastforce simp add: p)
    qed
  qed
qed

lemma groupby_group:
  "(k, g) \<in> set (groupby key df) \<Longrightarrow> g = filter (\<lambda>r. key r = Some k) df"
proof (induction df arbitrary: k g rule: rev_induct)
  case Nil
  then show ?case by (simp add: groupby_Nil)
next
  case (snoc r df)
  show ?case
  proof (cases "key r")
    case None
    with snoc show ?thesis by (simp add: groupby_snoc)
  next
    case (Some k0)
    with snoc.prems have m: "(k, g) \<in> set (add_row k0 r (groupby key df))"
      by (simp add: groupby_snoc)
    from add_row_member [OF groupby_sorted m]
    consider (other) "k \<noteq> k0" "(k, g) \<in> set (groupby key df)"
      | (old) g1 where "k = k0" "(k0, g1) \<in> set (groupby key df)" "g = g1 @ [r]"
      | (new) "k = k0" "k0 \<notin> fst ` set (groupby key df)" "g = [r]"
      by blast
    then show ?thesis
    proof cases
      case other
      with snoc.IH [of k g] Some show ?thesis by simp
    next
      case old
      with snoc.IH [of k0 g1] Some show ?thesis by simp
    next
      case new
      then have "k0 \<notin> set (List.map_filter key df)" by (simp add: groupby_keys)
      then have "filter (\<lambda>r. key r = Some k0) df = []"
        by (auto simp add: filter_empty_conv set_map_filter)
      with new Some show ?thesis by simp
    qed
  qed
qed

section \<open>Properties of the project aggregation\<close>

lemma mean_fold:
  "foldl (\<lambda>(s, n) v. case v of None \<Rightarrow> (s, n) | Some x \<Rightarrow> (s + x, Suc n)) (s0 :: real, n0) vs
   = (s0 + sum_list (List.map_filter id vs), n0 + length (List.map_filter id vs))"
  by (induction vs arbitrary: s0 n0) (auto simp add: add.assoc split: option.splits)

lemma mean_skipna_arithmetic_mean: "mean_skipna vs = arithmetic_mean (List.map_filter id vs)"
  by (simp add: mean_skipna_def arithmetic_mean_def mean_fold [of "0::real" "0::nat", simplified])

lemma map_filter_id_map: "List.map_filter id (map f xs) = List.map_filter f xs"
  by (induction xs) (auto split: option.splits)

lemma last_fold:
  "foldl (\<lambda>acc v. case v of None \<Rightarrow> acc | Some x \<Rightarrow> Some x) acc vs
   = (if List.map_filter id vs = [] then acc else Some (last (List.map_filter id vs)))"
  by (induction vs arbitrary: acc) (auto split: option.splits)

lemma last_skipna_last:
  "last_skipna vs
   = (if List.map_filter id vs = [] then None else Some (last (List.map_filter id vs)))"
  by (simp add: last_skipna_def last_fold)

lemma identity_of_aggregate:
  "map identity_of (aggregate_project_progress df) = map fst (groupby identity_key df)"
  by (simp add: aggregate_project_progress_def identity_of_def split_def)

lemma aggregate_member:
  assumes "a \<in> set (aggregate_project_progress df)"
  shows "ps_Completion a = mean_skipna (map Completion (group_rows (identity_of a) df))"
    and "ps_Status_Flag a = last_skipna (map Status_Flag (group_rows (identity_of a) df))"
proof -
  from assms obtain k g where kg: "(k, g) \<in> set (groupby identity_key df)"
    and a: "a = (case (k, g) of ((n, c, d, s, h, e), g) \<Rightarrow>
            \<lparr>ps_Project_Name = n, ps_Project_category = c, ps_Department = d,
             ps_Sub_department = s, ps_Department_Head = h, ps_Expected_Completion = e,
             ps_Completion = mean_skipna (map Completion g),
             ps_Status_Flag = last_skipna (map Status_Flag g)\<rparr>)"
    by (auto simp add: aggregate_project_progress_def)
  have k: "identity_of a = k"
    by (cases k) (simp add: a identity_of_def)
  have g: "g = group_rows k df"
    using groupby_group [OF kg] by (simp add: group_rows_def)
  show "ps_Completion a = mean_skipna (map Completion (group_rows (identity_of a) df))"
    unfolding k by (cases k) (simp add: a g)
  show "ps_Status_Flag a = last_skipna (map Status_Flag (group_rows (identity_of a) df))"
    unfolding k by (cases k) (simp add: a g)
qed

text \<open>
  C3. The aggregated frame has exactly one row per six-field identity key present in
  the input (a key is present when a row has all six fields): the identities of the
  aggregated rows are pairwise distinct, they are the keys of the input rows, and
  each aggregated row carries the six fields of its key as they are in the input.
\<close>

theorem one_record_per_identity_key:
  "distinct (map identity_of (aggregate_project_progress df))
   \<and> set (map identity_of (aggregate_project_progress df)) = set (List.map_filter identity_key df)
   \<and> length (aggregate_project_progress df) = card (set (List.map_filter identity_key df))"
proof -
  have d: "distinct (map identity_of (aggregate_project_progress df))"
    by (simp only: identity_of_aggregate groupby_distinct)
  have s: "set (map identity_of (aggregate_project_progress df))
           = set (List.map_filter identity_key df)"
    by (simp only: identity_of_aggregate set_map groupby_keys)
  have "length (map identity_of (aggregate_project_progress df))
        = card (set (map identity_of (aggregate_project_progress df)))"
    using d by (simp only: distinct_card)
  with d s show ?thesis by simp
qed

text \<open>
  C4. The completion of an aggregated row is the arithmetic mean of the completion
  values of the input rows of its identity group, the missing values left out.
\<close>

theorem completion_is_mean_of_present_values:
  assumes "a \<in> set (aggregate_project_progress df)"
  shows "ps_Completion a
         = arithmetic_mean (List.map_filter Completion (group_rows (identity_of a) df))"
  using aggregate_member(1) [OF assms]
  by (simp add: mean_skipna_arithmetic_mean map_filter_id_map)

theorem completion_is_mean_of_present_values_witness:
  "bridge_a (Some 85) midnight \<in> set (aggregate_project_progress
       [bridge_a_row 3 (Some 80) None, bridge_a_row 3 None None, bridge_a_row 3 (Some 90) None])
   \<and> ps_Completion (bridge_a (Some 85) midnight) = arithmetic_mean [80, 90]"
  using completion_is_mean_of_present_values [of "bridge_a (Some 85) midnight"
       "[bridge_a_row 3 (Some 80) None, bridge_a_row 3 None None, bridge_a_row 3 (Some 90) None]"]
  by (simp add: aggregate_project_progress_def groupby_def identity_key_def bridge_a_row_def
      bridge_a_def midnight_def mean_skipna_def last_skipna_def arithmetic_mean_def
      group_rows_def identity_of_def)

text \<open>
  C5, as the code has it. The status flag of an aggregated row is the flag of the last
  row of its identity group, in the order of the input, whose flag is not missing,
  and it is missing when no row of the group has a flag. The rows of the group are
  taken in input order: nothing is reordered before grouping.
\<close>

theorem last_flag_is_last_present_flag:
  assumes "a \<in> set (aggregate_project_progress df)"
  shows "ps_Status_Flag a
         = (if List.map_filter Status_Flag (group_rows (identity_of a) df) = [] then None
            else Some (last (List.map_filter Status_Flag (group_rows (identity_of a) df))))"
  using aggregate_member(2) [OF assms]
  by (simp add: last_skipna_last map_filter_id_map)

theorem last_flag_is_last_present_flag_witness:
  "(bridge_a (Some 85) midnight)\<lparr>ps_Status_Flag := Some ''On Track''\<rparr>
     \<in> set (aggregate_project_progress two_reports)
   \<and> ps_Status_Flag ((bridge_a (Some 85) midnight)\<lparr>ps_Status_Flag := Some ''On Track''\<rparr>)
       = Some (last [''On Track''])"
  using last_flag_is_last_present_flag
    [of "(bridge_a (Some 85) midnight)\<lparr>ps_Status_Flag := Some ''On Track''\<rparr>" two_reports]
  by (simp add: aggregate_project_progress_def groupby_def identity_key_def bridge_a_row_def
      bridge_a_def midnight_def mean_skipna_def last_skipna_def two_reports_def
      group_rows_def identity_of_def)

text \<open>
  C5, as the claim states it, fails: of two reports of one project, the later without
  a status flag, the aggregated row keeps the flag of the earlier report, which is not
  the (missing) flag of the last row of the group.
\<close>

theorem last_flag_skips_missing_counterexample:
  "aggregate_project_progress two_reports
     = [(bridge_a (Some 85) midnight)\<lparr>ps_Status_Flag := Some ''On Track''\<rparr>]
   \<and> group_rows (identity_of ((bridge_a (Some 85) midnight)\<lparr>ps_Status_Flag := Some ''On Track''\<rparr>))
        two_reports = two_reports
   \<and> Status_Flag (last two_reports) = None
   \<and> ps_Status_Flag ((bridge_a (Some 85) midnight)\<lparr>ps_Status_Flag := Some ''On Track''\<rparr>)
       \<noteq> Status_Flag (last two_reports)"
  by (simp add: aggregate_project_progress_def groupby_def identity_key_def bridge_a_row_def
      bridge_a_def midnight_def mean_skipna_def last_skipna_def two_reports_def
      group_rows_def identity_of_def)

section \<open>Missing keys and missing completion values\<close>

lemma zip_option_None: "zip_option x y = None \<longleftrightarrow> x = None \<or> y = None"
  by (cases x; cases y) simp_all

lemma identity_key_None:
  "identity_key r = None \<longleftrightarrow>
     Project_Name r = None \<or> Project_category r = None \<or> Department r = None
     \<or> Sub_department r = None \<or> Department_Head r = None \<or> Expected_Completion r = None"
  by (simp add: identity_key_def zip_option_None)

lemma groupby_drop_row: "key r = None \<Longrightarrow> groupby key (xs @ r # ys) = groupby key (xs @ ys)"
  by (simp add: groupby_def)

lemma derive_status_flag_nan: "ps_Completion r = None \<Longrightarrow> derive_status_flag today r = ''Paused''"
  by (simp add: derive_status_flag_def float_ge_def float_lt_def)

text \<open>
  C9. A row with one of the six identity fields missing leaves no trace in the
  aggregation: the aggregated frame, the summary with its derived statuses, the
  number of projects and every status count are what they are without the row.
\<close>

theorem rows_with_missing_key_are_dropped:
  assumes "Project_Name r = None \<or> Project_category r = None \<or> Department r = None
     \<or> Sub_department r = None \<or> Department_Head r = None \<or> Expected_Completion r = None"
  shows "aggregate_project_progress (xs @ r # ys) = aggregate_project_progress (xs @ ys)
    \<and> proj_summary today (xs @ r # ys) = proj_summary today (xs @ ys)
    \<and> length (proj_summary today (xs @ r # ys)) = length (proj_summary today (xs @ ys))
    \<and> status_count (proj_summary today (xs @ r # ys)) s
        = status_count (proj_summary today (xs @ ys)) s"
proof -
  from assms have "identity_key r = None" by (simp only: identity_key_None)
  then have "aggregate_project_progress (xs @ r # ys) = aggregate_project_progress (xs @ ys)"
    by (simp only: aggregate_project_progress_def groupby_drop_row)
  then show ?thesis by (simp only: proj_summary_def simp_thms)
qed

theorem rows_with_missing_key_are_dropped_witness:
  "Department ((bridge_a_row 3 (Some 10) None)\<lparr>Department := None\<rparr>) = None
   \<and> aggregate_project_progress
        ([bridge_a_row 3 (Some 80) None] @ (bridge_a_row 3 (Some 10) None)\<lparr>Department := None\<rparr>
          # [bridge_a_row 3 (Some 90) None])
     = aggregate_project_progress ([bridge_a_row 3 (Some 80) None] @ [bridge_a_row 3 (Some 90) None])
   \<and> aggregate_project_progress ([bridge_a_row 3 (Some 80) None] @ [bridge_a_row 3 (Some 90) None])
     = [bridge_a (Some 85) midnight]"
proof -
  have d: "Department ((bridge_a_row 3 (Some 10) None)\<lparr>Department := None\<rparr>) = None"
    by simp
  have e: "aggregate_project_progress ([bridge_a_row 3 (Some 80) None] @ [bridge_a_row 3 (Some 90) None])
     = [bridge_a (Some 85) midnight]"
    by (simp add: aggregate_project_progress_def groupby_def identity_key_def bridge_a_row_def
      bridge_a_def midnight_def mean_skipna_def last_skipna_def)
  have h: "Project_Name ((bridge_a_row 3 (Some 10) None)\<lparr>Department := None\<rparr>) = None
     \<or> Project_category ((bridge_a_row 3 (Some 10) None)\<lparr>Department := None\<rparr>) = None
     \<or> Department ((bridge_a_row 3 (Some 10) None)\<lparr>Department := None\<rparr>) = None
     \<or> Sub_department ((bridge_a_row 3 (Some 10) None)\<lparr>Department := None\<rparr>) = None
     \<or> Department_Head ((bridge_a_row 3 (Some 10) None)\<lparr>Department := None\<rparr>) = None
     \<or> Expected_Completion ((bridge_a_row 3 (Some 10) None)\<lparr>Department := None\<rparr>) = None"
    using d by blast
  from rows_with_missing_key_are_dropped [OF h, of "[bridge_a_row 3 (Some 80) None]"
      "[bridge_a_row 3 (Some 90) None]" morning "''Paused''"] d e
  show ?thesis by blast
qed

text \<open>
  C10. When every completion value of an identity group is missing, the mean of the
  group is undefined (NaN) and the status flag logic answers Paused, whatever the
  expected completion and the clock: each comparison with NaN is false.
\<close>

theorem all_missing_completion_is_paused:
  assumes "a \<in> set (aggregate_project_progress df)"
    and "\<forall>r\<in>set (group_rows (identity_of a) df). Completion r = None"
  shows "ps_Completion a = None \<and> derive_status_flag today a = ''Paused''"
proof -
  have "List.map_filter Completion g = []" if "\<forall>r\<in>set g. Completion r = None" for g :: "row list"
    using that by (induction g) simp_all
  with assms(2) have "List.map_filter Completion (group_rows (identity_of a) df) = []"
    by blast
  then have "ps_Completion a = None"
    using aggregate_member(1) [OF assms(1)]
    by (simp add: mean_skipna_arithmetic_mean map_filter_id_map arithmetic_mean_def)
  then show ?thesis by (simp add: derive_status_flag_nan)
qed

theorem all_missing_completion_is_paused_witness:
  "bridge_a None midnight \<in> set (aggregate_project_progress
       [bridge_a_row 3 None None, bridge_a_row 3 None None])
   \<and> map Completion (group_rows (identity_of (bridge_a None midnight))
         [bridge_a_row 3 None None, bridge_a_row 3 None None]) = [None, None]
   \<and> ps_Completion (bridge_a None midnight) = None
   \<and> derive_status_flag morning (bridge_a None midnight) = ''Paused''"
proof -
  have m: "bridge_a None midnight \<in> set (aggregate_project_progress
       [bridge_a_row 3 None None, bridge_a_row 3 None None])"
    by (simp add: aggregate_project_progress_def groupby_def identity_key_def bridge_a_row_def
      bridge_a_def midnight_def mean_skipna_def last_skipna_def)
  have c: "map Completion (group_rows (identity_of (bridge_a None midnight))
         [bridge_a_row 3 None None, bridge_a_row 3 None None]) = [None, None]"
    by (simp add: group_rows_def bridge_a_row_def bridge_a_def identity_of_def identity_key_def
      midnight_def)
  have g: "\<forall>r\<in>set (group_rows (identity_of (bridge_a None midnight))
         [bridge_a_row 3 None None, bridge_a_row 3 None None]). Completion r = None"
    by (simp add: group_rows_def bridge_a_row_def)
  from all_missing_completion_is_paused [OF m g, of morning] m c show ?thesis by blast
qed

section \<open>Properties of the heatmap block\<close>

lemma pivot_heat_df_succeeds: "\<exists>hp. pivot (heat_df ps) = Inr hp"
proof -
  have "map (\<lambda>r. (h_Department r, h_Project_Name r)) (heat_df ps)
        = map fst (groupby (\<lambda>r. Some (ps_Department r, ps_Project_Name r)) ps)"
    by (simp add: heat_df_def split_def)
  then have "distinct (map (\<lambda>r. (h_Department r, h_Project_Name r)) (heat_df ps))"
    by (simp only: groupby_distinct)
  then show ?thesis by (simp add: pivot_def Let_def)
qed



section \<open>Properties of the timeline aggregation\<close>

lemma add_row_front: "\<forall>p\<in>set gs. k < fst p \<Longrightarrow> add_row k r gs = (k, [r]) # gs"
  by (cases gs) auto

lemma add_row_other_category:
  "c \<noteq> c0 \<Longrightarrow>
     filter (\<lambda>p. snd (snd (fst p)) = c0) (add_row (w, n, c) r gs)
     = filter (\<lambda>p. snd (snd (fst p)) = c0) gs"
  by (induction gs) auto

lemma add_row_same_category:
  assumes "sorted_wrt (<) (map fst gs)"
  shows "map (\<lambda>p. ((fst (fst p), fst (snd (fst p))), snd p))
           (filter (\<lambda>p. snd (snd (fst p)) = c0) (add_row (w, n, c0) r gs))
         = add_row (w, n) r
             (map (\<lambda>p. ((fst (fst p), fst (snd (fst p))), snd p))
                (filter (\<lambda>p. snd (snd (fst p)) = c0) gs))"
  using assms
proof (induction gs)
  case Nil
  then show ?case by simp
next
  case (Cons p gs)
  obtain w' n' c' g where p: "p = ((w', n', c'), g)" by (cases p) auto
  from Cons.prems have sorted: "sorted_wrt (<) (map fst gs)"
    and above: "\<forall>q\<in>set gs. (w', n', c') < fst q"
    by (auto simp add: p)
  note IH = Cons.IH [OF sorted]
  show ?case
  proof (cases "(w, n, c0) = (w', n', c')")
    case True
    then show ?thesis by (simp add: p)
  next
    case ne: False
    show ?thesis
    proof (cases "(w, n, c0) < (w', n', c')")
      case lt: True
      have front: "\<forall>q\<in>set (map (\<lambda>p. ((fst (fst p), fst (snd (fst p))), snd p))
                (filter (\<lambda>p. snd (snd (fst p)) = c0) gs)). (w, n) < fst q"
      proof
        fix q assume "q \<in> set (map (\<lambda>p. ((fst (fst p), fst (snd (fst p))), snd p))
                (filter (\<lambda>p. snd (snd (fst p)) = c0) gs))"
        then obtain w2 n2 g2 where q: "q = ((w2, n2), g2)" and m: "((w2, n2, c0), g2) \<in> set gs"
          by force
        from above m have "(w', n', c') < (w2, n2, c0)" by force
        with lt have "(w, n, c0) < (w2, n2, c0)" by (rule less_trans)
        then show "(w, n) < fst q" by (auto simp add: q)
      qed
      show ?thesis
      proof (cases "c' = c0")
        case True
        with lt ne show ?thesis by (auto simp add: p)
      next
        case False
        with lt ne show ?thesis by (simp add: p add_row_front [OF front])
      qed
    next
      case gt: False
      show ?thesis
      proof (cases "c' = c0")
        case True
        with gt ne IH show ?thesis by (auto simp add: p)
      next
        case False
        with gt ne IH show ?thesis by (auto simp add: p)
      qed
    qed
  qed
qed


lemma groupby_filter_category:
  "groupby (\<lambda>r. zip_option (wk r) (nm r)) (filter (\<lambda>r. cat r = Some c0) df)
   = map (\<lambda>p. ((fst (fst p), fst (snd (fst p))), snd p))
       (filter (\<lambda>p. snd (snd (fst p)) = c0)
          (groupby (\<lambda>r. zip_option (wk r) (zip_option (nm r) (cat r))) df))"
proof (induction df rule: rev_induct)
  case Nil
  then show ?case by (simp add: groupby_Nil)
next
  case (snoc r df)
  show ?case
  proof (cases "zip_option (wk r) (zip_option (nm r) (cat r))")
    case None
    then have "cat r \<noteq> Some c0 \<or> zip_option (wk r) (nm r) = None"
      by (cases "wk r"; cases "nm r"; cases "cat r") simp_all
    with None snoc.IH show ?thesis
      by (auto simp add: groupby_snoc)
  next
    case (Some k)
    obtain w n c where k: "k = (w, n, c)" by (cases k) auto
    from Some have f: "wk r = Some w" "nm r = Some n" "cat r = Some c"
      by (cases "wk r"; cases "nm r"; cases "cat r"; simp add: k)+
    show ?thesis
    proof (cases "c = c0")
      case True
      with f snoc.IH show ?thesis
        by (simp add: groupby_snoc add_row_same_category [OF groupby_sorted])
    next
      case False
      with f snoc.IH show ?thesis
        by (simp add: groupby_snoc add_row_other_category)
    qed
  qed
qed

text \<open>
  C8. The category filter and the aggregation commute: filtering the full frame to
  the category Super Critical and then taking the mean completion by (week, project
  name) gives the same rows, in the same order, as taking the mean by (week, project
  name, category) over the full frame and then keeping the Super Critical groups.
\<close>

theorem filter_and_aggregate_commute:
  "agg_tl (timeline_df df) = keep_super_critical (agg_by_week_project_category df)"
proof -
  have "agg_tl (timeline_df df)
        = map (\<lambda>p. \<lparr>t_Week_Number = fst (fst p), t_Project_Name = snd (fst p),
                     t_Completion = mean_skipna (map Completion (snd p))\<rparr>)
            (map (\<lambda>p. ((fst (fst p), fst (snd (fst p))), snd p))
               (filter (\<lambda>p. snd (snd (fst p)) = ''Super Critical'')
                  (groupby (\<lambda>r. zip_option (Week_Number r)
                     (zip_option (Project_Name r) (Project_category r))) df)))"
    unfolding agg_tl_def timeline_df_def groupby_filter_category
    by (simp add: split_def)
  also have "\<dots> = keep_super_critical (agg_by_week_project_category df)"
    unfolding keep_super_critical_def agg_by_week_project_category_def
    by (simp add: filter_map comp_def split_def trend_row.defs)
  finally show ?thesis .
qed

end
